theory Spec2Isabelle
  imports Complex_Main "HOL-Library.Log_Nat"
begin

section \<open>The Bitstamp live broker of PyAlgoTrade (pyalgotrade/bitstamp/livebroker.py)\<close>

text \<open>
  The module has two classes: \<open>TradeMonitor\<close>, a thread that polls the exchange for the
  account's trades, and \<open>LiveBroker\<close>, which keeps cash, holdings and the active orders
  and applies the polled trades to them.

  Conventions of the embedding:
  \<^item> a method that mutates \<open>self\<close> takes the object as a record and returns the new
    record; a method that may raise returns a \<open>result\<close> next to the record, since what a
    Python method has assigned before it raises stays assigned;
  \<^item> the answers of the HTTP client are arguments (\<open>Raise e\<close> when the call raises), and
    every call, log record, sleep and notification is appended to the object's
    \<open>effects\<close>, in program order;
  \<^item> a Python float is a \<open>double\<close>: an IEEE 754 binary64 value, finite (a rational), an
    infinity or NaN; sums, differences and \<open>round\<close> are rounded to the nearest double as
    the machine and CPython 2.7 round them. The two zeros are one value (they compare
    equal, and the program never divides), and a Python \<open>int\<close> \<open>0\<close> that meets a float
    is the double \<open>0\<close>;
  \<^item> an exception is a value of \<open>exception\<close>; \<open>isException\<close> tells the instances of
    Python's \<open>Exception\<close> class, which \<open>except Exception\<close> catches, from the others
    (\<open>SystemExit\<close>, \<open>KeyboardInterrupt\<close>, \<open>GeneratorExit\<close>, instances of old-style
    classes), which it lets through.
  A leading underscore of a Python name is dropped: \<open>_getNewTrades\<close> is \<open>getNewTrades\<close>.
\<close>

subsection \<open>Exceptions and results\<close>

datatype exception =
    Exception string
  | NotImplementedError
  | KeyError int
  | RuntimeError string
  | SystemExit
  | KeyboardInterrupt
  | GeneratorExit
  | OldStyleInstance string

text \<open>\<open>isinstance(e, Exception)\<close>: in Python 2 \<open>SystemExit\<close>, \<open>KeyboardInterrupt\<close> and
  \<open>GeneratorExit\<close> derive from \<open>BaseException\<close> only, and an instance of an old-style
  class derives from neither.\<close>

fun isException :: "exception \<Rightarrow> bool" where
  "isException (Exception msg) = True"
| "isException NotImplementedError = True"
| "isException (KeyError k) = True"
| "isException (RuntimeError msg) = True"
| "isException SystemExit = False"
| "isException KeyboardInterrupt = False"
| "isException GeneratorExit = False"
| "isException (OldStyleInstance c) = False"

datatype 'a result = Raise exception | Return 'a

subsection \<open>Floats\<close>

datatype double = Finite rat | PosInf | NegInf | NaN

text \<open>\<open>ilog2 a\<close> is the binary exponent of a positive rational: the \<open>e\<close> with
  \<open>2^e \<le> a < 2^(e+1)\<close>. With \<open>p\<close> and \<open>q\<close> the numerator and denominator, it is the
  difference \<open>d\<close> of their bit lengths or one less.\<close>

definition ilog2 :: "rat \<Rightarrow> int" where
  "ilog2 a =
     (let (p, q) = quotient_of a;
          d = bitlen p - bitlen q
      in if 2 powi d \<le> a then d else d - 1)"

text \<open>Rounding to the nearest integer, a tie to the even one.\<close>

definition round_half_even :: "rat \<Rightarrow> int" where
  "round_half_even r =
     (let f = \<lfloor>r\<rfloor>; d = r - of_int f
      in if d < 1 / 2 then f else if 1 / 2 < d then f + 1 else if even f then f else f + 1)"

text \<open>\<open>fl x\<close> is the double nearest to the rational \<open>x\<close> (round to nearest, ties to
  even): the significand \<open>m\<close> has 53 bits at the exponent of \<open>x\<close>, fewer below the least
  normal exponent (the unit is never under \<open>2^-1074\<close>). The rounded magnitude \<open>m * 2^q\<close>
  reaches \<open>2^1024\<close>, which overflows to an infinity, exactly when \<open>q\<close> is above 971, or is
  971 and \<open>m\<close> has been rounded up to \<open>2^53\<close>.\<close>

definition fl :: "rat \<Rightarrow> double" where
  "fl x =
     (if x = 0 then Finite 0
      else
        (let a = \<bar>x\<bar>;
             q = max (ilog2 a - 52) (- 1074);
             m = round_half_even (a / 2 powi q)
         in if 971 < q \<or> (q = 971 \<and> 2 ^ 53 \<le> m)
            then (if 0 < x then PosInf else NegInf)
            else Finite (sgn x * (of_int m * 2 powi q))))"

text \<open>Float addition: the exact sum of two finite doubles, rounded; the IEEE rules for
  infinities and NaN.\<close>

fun dadd :: "double \<Rightarrow> double \<Rightarrow> double" where
  "dadd NaN y = NaN"
| "dadd x NaN = NaN"
| "dadd PosInf NegInf = NaN"
| "dadd NegInf PosInf = NaN"
| "dadd PosInf y = PosInf"
| "dadd x PosInf = PosInf"
| "dadd NegInf y = NegInf"
| "dadd x NegInf = NegInf"
| "dadd (Finite x) (Finite y) = fl (x + y)"

fun dneg :: "double \<Rightarrow> double" where
  "dneg (Finite x) = Finite (- x)"
| "dneg PosInf = NegInf"
| "dneg NegInf = PosInf"
| "dneg NaN = NaN"

definition dsub :: "double \<Rightarrow> double \<Rightarrow> double" where
  "dsub x y = dadd x (dneg y)"

text \<open>\<open>abs\<close>.\<close>

fun dabs :: "double \<Rightarrow> double" where
  "dabs (Finite x) = Finite \<bar>x\<bar>"
| "dabs PosInf = PosInf"
| "dabs NegInf = PosInf"
| "dabs NaN = NaN"

text \<open>\<open>x <= y\<close>: false when either side is NaN.\<close>

fun dle :: "double \<Rightarrow> double \<Rightarrow> bool" where
  "dle NaN y = False"
| "dle x NaN = False"
| "dle NegInf y = True"
| "dle x PosInf = True"
| "dle PosInf y = False"
| "dle x NegInf = False"
| "dle (Finite x) (Finite y) = (x \<le> y)"

text \<open>Rounding a rational to \<open>n\<close> decimals, a tie away from zero.\<close>

definition py_round :: "rat \<Rightarrow> nat \<Rightarrow> rat" where
  "py_round x n =
     (let y = x * 10 ^ n
      in (if 0 \<le> y then of_int \<lfloor>y + 1 / 2\<rfloor> else of_int \<lceil>y - 1 / 2\<rceil>) / 10 ^ n)"

text \<open>\<open>round(x, n)\<close> of a float, for the \<open>n\<close> of this program (2 and 8), as CPython 2.7
  computes it: the exact value of \<open>x\<close> is rounded to \<open>n\<close> decimals, a tie away from zero,
  and the decimal is converted to the nearest double. An infinity and NaN are returned
  as they are.\<close>

fun dround :: "double \<Rightarrow> nat \<Rightarrow> double" where
  "dround (Finite x) n = fl (py_round x n)"
| "dround d n = d"

subsection \<open>Records of the HTTP client\<close>

text \<open>A trade as the HTTP client reports it (\<open>httpclient.UserTransaction\<close>): the fields
  are what its accessors \<open>getId\<close>, \<open>getOrderId\<close>, \<open>getBTCUSD\<close>, \<open>getBTC\<close>, \<open>getUSD\<close>,
  \<open>getFee\<close> and \<open>getDateTime\<close> return.\<close>

record trade =
  tradeId :: int
  tradeOrderId :: int
  tradeBTCUSD :: double
  tradeBTC :: double
  tradeUSD :: double
  tradeFee :: double
  tradeDateTime :: int

text \<open>An open order as the HTTP client reports it (\<open>httpclient.Order\<close>); \<open>openIsBuy\<close> and
  \<open>openIsSell\<close> are the answers of \<open>isBuy()\<close> and \<open>isSell()\<close>.\<close>

record openOrder =
  openId :: int
  openIsBuy :: bool
  openIsSell :: bool
  openPrice :: double
  openAmount :: double
  openDateTime :: int

record accountBalance =
  usdAvailable :: double
  btcAvailable :: double

subsection \<open>Orders of the broker framework\<close>

datatype action = BUY | SELL

datatype order_state = INITIAL | SUBMITTED | ACCEPTED | CANCELED | PARTIALLY_FILLED | FILLED

record OrderExecutionInfo =
  execPrice :: double
  execQuantity :: double
  execCommission :: double
  execDateTime :: int

text \<open>\<open>instrumentTraits\<close> is the order's \<open>roundQuantity\<close>.\<close>

record Order =
  orderId :: int
  orderAction :: action
  orderInstrument :: string
  orderLimitPrice :: double
  orderQuantity :: double
  instrumentTraits :: "double \<Rightarrow> double"
  orderState :: order_state
  submitDateTime :: "int option"
  orderFilled :: double
  executions :: "OrderExecutionInfo list"

text \<open>Modelled from the spec: \<open>broker.LimitOrder\<close>, the constructor of the framework's
  limit order (the framework's broker package is not among the sources). A new order has
  nothing filled and no execution.\<close>

definition LimitOrder ::
  "int \<Rightarrow> action \<Rightarrow> string \<Rightarrow> double \<Rightarrow> double \<Rightarrow> (double \<Rightarrow> double) \<Rightarrow> Order" where
  "LimitOrder i a instr p q traits =
     \<lparr>orderId = i, orderAction = a, orderInstrument = instr, orderLimitPrice = p,
      orderQuantity = q, instrumentTraits = traits, orderState = INITIAL,
      submitDateTime = None, orderFilled = Finite 0, executions = []\<rparr>"

text \<open>Modelled from the spec: \<open>Order.isActive\<close>. An active order is one not yet in a
  terminal state, and the terminal states are Filled and Canceled.\<close>

definition isActive :: "Order \<Rightarrow> bool" where
  "isActive ord = (orderState ord \<noteq> CANCELED \<and> orderState ord \<noteq> FILLED)"

text \<open>Modelled from the spec: \<open>Order.isFilled\<close>.\<close>

definition isFilled :: "Order \<Rightarrow> bool" where
  "isFilled ord = (orderState ord = FILLED)"

text \<open>Modelled from the spec: \<open>Order.addExecutionInfo\<close>. The execution record is appended
  to the order; an order whose cumulative filled quantity reaches its full quantity
  transitions to Filled, one filled below it to PartiallyFilled.\<close>

definition addExecutionInfo :: "OrderExecutionInfo \<Rightarrow> Order \<Rightarrow> Order" where
  "addExecutionInfo info ord =
     (let f = dadd (orderFilled ord) (execQuantity info)
      in ord\<lparr>orderFilled := f,
              executions := executions ord @ [info],
              orderState := (if dle (orderQuantity ord) f then FILLED else PARTIALLY_FILLED)\<rparr>)"

text \<open>Modelled from the spec: \<open>Order.switchState\<close>, the state transition.\<close>

definition switchState :: "order_state \<Rightarrow> Order \<Rightarrow> Order" where
  "switchState s ord = ord\<lparr>orderState := s\<rparr>"

datatype event_type = EV_FILLED | EV_PARTIALLY_FILLED | EV_CANCELED

datatype event_info = ExecInfo OrderExecutionInfo | Message string

text \<open>\<open>broker.OrderEvent(order, eventType, eventInfo)\<close>; the order is the order as it is
  when the event is handed to \<open>notifyOrderEvent\<close>.\<close>

datatype OrderEvent = OrderEvent Order event_type event_info

subsection \<open>Effects\<close>

datatype http_request = GetUserTransactions | GetAccountBalance | GetOpenOrders | CancelOrder int

datatype level = INFO | ERROR | CRITICAL

datatype arg = I int | R double | D "trade list"

text \<open>\<open>Logger\<close> is a call of \<open>common.logger\<close> with its format string and arguments,
  \<open>LoggerExc\<close> one with \<open>exc_info\<close>; \<open>Sleep\<close> is \<open>time.sleep\<close>, \<open>ThreadStart\<close> is
  \<open>threading.Thread.start\<close>, \<open>Notify\<close> is \<open>notifyOrderEvent\<close>.\<close>

datatype effect =
    Http http_request
  | Logger level string "arg list"
  | LoggerExc level string exception
  | Sleep nat
  | ThreadStart
  | Notify OrderEvent

subsection \<open>TradeMonitor\<close>

definition POLL_FREQUENCY :: nat where
  "POLL_FREQUENCY = 2"

definition ON_USER_TRADE :: int where
  "ON_USER_TRADE = 1"

record TradeMonitor =
  lastTradeId :: int
  queue :: "(int \<times> trade list) list"
  mon_stop :: bool
  started :: bool
  mon_effects :: "effect list"

definition TradeMonitor_init :: TradeMonitor where
  "TradeMonitor_init =
     \<lparr>lastTradeId = - 1, queue = [], mon_stop = False, started = False, mon_effects = []\<rparr>"

text \<open>The \<open>for\<close> loop of \<open>_getNewTrades\<close>: \<open>ret\<close> collects trades until the first one whose
  id is not above the watermark (\<open>break\<close>).\<close>

fun newTradesLoop :: "int \<Rightarrow> trade list \<Rightarrow> trade list \<Rightarrow> trade list" where
  "newTradesLoop w [] ret = ret"
| "newTradesLoop w (userTrade # userTrades) ret =
     (if tradeId userTrade > w then newTradesLoop w userTrades (ret @ [userTrade]) else ret)"

definition getNewTrades ::
  "trade list result \<Rightarrow> TradeMonitor \<Rightarrow> trade list result \<times> TradeMonitor" where
  "getNewTrades resp m =
     (let m1 = m\<lparr>mon_effects := mon_effects m @ [Http GetUserTransactions]\<rparr>
      in case resp of
           Raise e \<Rightarrow> (Raise e, m1)
         | Return userTrades \<Rightarrow> (Return (rev (newTradesLoop (lastTradeId m1) userTrades [])), m1))"

text \<open>\<open>TradeMonitor.start\<close>; \<open>threading.Thread.start\<close> raises RuntimeError on a thread
  that was started before.\<close>

definition monitor_start :: "trade list result \<Rightarrow> TradeMonitor \<Rightarrow> unit result \<times> TradeMonitor" where
  "monitor_start resp m =
     (case getNewTrades resp m of
        (Raise e, m1) \<Rightarrow> (Raise e, m1)
      | (Return trades, m1) \<Rightarrow>
          (let m2 = (if trades \<noteq> []
                     then m1\<lparr>lastTradeId := tradeId (last trades),
                            mon_effects := mon_effects m1 @
                              [Logger INFO ''Last trade found: %d'' [I (tradeId (last trades))]]\<rparr>
                     else m1)
           in if started m2 then (Raise (RuntimeError ''threads can only be started once''), m2)
              else (Return (), m2\<lparr>started := True, mon_effects := mon_effects m2 @ [ThreadStart]\<rparr>)))"

text \<open>The \<open>try\<close> block of \<open>run\<close>.\<close>

definition run_try :: "trade list result \<Rightarrow> TradeMonitor \<Rightarrow> unit result \<times> TradeMonitor" where
  "run_try resp m =
     (case getNewTrades resp m of
        (Raise e, m1) \<Rightarrow> (Raise e, m1)
      | (Return trades, m1) \<Rightarrow>
          (Return (),
           if trades \<noteq> []
           then m1\<lparr>lastTradeId := tradeId (last trades),
                  queue := queue m1 @ [(ON_USER_TRADE, trades)],
                  mon_effects := mon_effects m1 @
                    [Logger INFO ''%d new trade/s found'' [I (int (length trades))]]\<rparr>
           else m1))"

text \<open>One pass of the \<open>while\<close> body. An exception of the \<open>try\<close> block that is an
  instance of \<open>Exception\<close> is caught and logged, and the sleep follows; any other
  exception is not caught: it leaves the body before the sleep.\<close>

definition run_cycle :: "trade list result \<Rightarrow> TradeMonitor \<Rightarrow> unit result \<times> TradeMonitor" where
  "run_cycle resp m =
     (case run_try resp m of
        (Raise e, m1) \<Rightarrow>
          if isException e
          then (Return (),
                m1\<lparr>mon_effects := mon_effects m1 @
                     [LoggerExc CRITICAL ''Error retrieving user transactions'' e,
                      Sleep POLL_FREQUENCY]\<rparr>)
          else (Raise e, m1)
      | (Return _, m1) \<Rightarrow>
          (Return (), m1\<lparr>mon_effects := mon_effects m1 @ [Sleep POLL_FREQUENCY]\<rparr>))"

text \<open>\<open>TradeMonitor.run\<close>, over the answers the HTTP client gives to the successive
  fetches: the loop tests the stop flag before every cycle, and an exception that leaves
  a cycle leaves \<open>run\<close> and ends the thread. The list ends where the observation of the
  thread ends.\<close>

fun run :: "trade list result list \<Rightarrow> TradeMonitor \<Rightarrow> unit result \<times> TradeMonitor" where
  "run [] m = (Return (), m)"
| "run (resp # resps) m =
     (if mon_stop m then (Return (), m)
      else case run_cycle resp m of
             (Raise e, m1) \<Rightarrow> (Raise e, m1)
           | (Return _, m1) \<Rightarrow> run resps m1)"

definition monitor_stop :: "TradeMonitor \<Rightarrow> TradeMonitor" where
  "monitor_stop m = m\<lparr>mon_stop := True\<rparr>"

subsection \<open>LiveBroker\<close>

text \<open>\<open>common.btc_symbol\<close>, the one instrument of the broker (the \<open>common\<close> module is
  not among the sources; the spec's scenarios name the instrument BTC).\<close>

definition btc_symbol :: string where
  "btc_symbol = ''BTC''"

record LiveBroker =
  brk_stop :: bool
  cash :: double
  shares :: "string \<rightharpoonup> double"
  activeOrders :: "int \<rightharpoonup> Order"
  tradeMonitor :: TradeMonitor
  effects :: "effect list"

definition LiveBroker_init :: LiveBroker where
  "LiveBroker_init =
     \<lparr>brk_stop = False, cash = Finite 0, shares = Map.empty, activeOrders = Map.empty,
      tradeMonitor = TradeMonitor_init, effects = []\<rparr>"

text \<open>\<open>setState\<close> and \<open>setSubmitDateTime\<close> of the framework's order are the two field
  updates.\<close>

definition build_order_from_open_order :: "openOrder \<Rightarrow> (double \<Rightarrow> double) \<Rightarrow> Order result" where
  "build_order_from_open_order openOrder traits =
     (if openIsBuy openOrder then
        Return ((LimitOrder (openId openOrder) BUY btc_symbol (openPrice openOrder)
                   (openAmount openOrder) traits)
                \<lparr>orderState := ACCEPTED, submitDateTime := Some (openDateTime openOrder)\<rparr>)
      else if openIsSell openOrder then
        Return ((LimitOrder (openId openOrder) SELL btc_symbol (openPrice openOrder)
                   (openAmount openOrder) traits)
                \<lparr>orderState := ACCEPTED, submitDateTime := Some (openDateTime openOrder)\<rparr>)
      else Raise (Exception ''Invalid order type''))"

definition refreshAccountBalance ::
  "accountBalance result \<Rightarrow> LiveBroker \<Rightarrow> unit result \<times> LiveBroker" where
  "refreshAccountBalance resp b =
     (let b1 = b\<lparr>brk_stop := True,
                 effects := effects b @
                   [Logger INFO ''Retrieving account balance.'' [], Http GetAccountBalance]\<rparr>
      in case resp of
           Raise e \<Rightarrow> (Raise e, b1)
         | Return balance \<Rightarrow>
             (let c = dround (usdAvailable balance) 2;
                  btc = btcAvailable balance
              in (Return (),
                  b1\<lparr>brk_stop := False,
                     cash := c,
                     shares := [btc_symbol \<mapsto> btc],
                     effects := effects b1 @
                       [Logger INFO ''%s USD'' [R c], Logger INFO ''%s BTC'' [R btc]]\<rparr>)))"

text \<open>The \<open>for\<close> loop of \<open>refreshOpenOrders\<close>; \<open>traits\<close> is what
  \<open>getInstrumentTraits(common.btc_symbol)\<close> returns, \<open>common.BTCTraits()\<close>, whose
  \<open>roundQuantity\<close> is a parameter here.\<close>

fun openOrdersLoop :: "(double \<Rightarrow> double) \<Rightarrow> openOrder list \<Rightarrow> LiveBroker \<Rightarrow> unit result \<times> LiveBroker" where
  "openOrdersLoop traits [] b = (Return (), b)"
| "openOrdersLoop traits (openOrder # openOrders) b =
     (case build_order_from_open_order openOrder traits of
        Raise e \<Rightarrow> (Raise e, b)
      | Return ord \<Rightarrow>
          openOrdersLoop traits openOrders
            (b\<lparr>activeOrders := (activeOrders b)(openId openOrder \<mapsto> ord)\<rparr>))"

definition refreshOpenOrders ::
  "(double \<Rightarrow> double) \<Rightarrow> openOrder list result \<Rightarrow> LiveBroker \<Rightarrow> unit result \<times> LiveBroker" where
  "refreshOpenOrders traits resp b =
     (let b1 = b\<lparr>brk_stop := True,
                 effects := effects b @
                   [Logger INFO ''Retrieving open orders.'' [], Http GetOpenOrders]\<rparr>
      in case resp of
           Raise e \<Rightarrow> (Raise e, b1)
         | Return openOrders \<Rightarrow>
             (case openOrdersLoop traits openOrders b1 of
                (Raise e, b2) \<Rightarrow> (Raise e, b2)
              | (Return _, b2) \<Rightarrow>
                  (Return (),
                   b2\<lparr>brk_stop := False,
                      effects := effects b2 @
                        [Logger INFO ''%d open order/s found'' [I (int (length openOrders))]]\<rparr>)))"

definition startTradeMonitor :: "trade list result \<Rightarrow> LiveBroker \<Rightarrow> unit result \<times> LiveBroker" where
  "startTradeMonitor resp b =
     (let b1 = b\<lparr>brk_stop := True,
                 effects := effects b @ [Logger INFO ''Initializing trade monitor.'' []]\<rparr>
      in case monitor_start resp (tradeMonitor b1) of
           (Raise e, m) \<Rightarrow> (Raise e, b1\<lparr>tradeMonitor := m\<rparr>)
         | (Return _, m) \<Rightarrow> (Return (), b1\<lparr>tradeMonitor := m, brk_stop := False\<rparr>))"

text \<open>The body of the \<open>for\<close> loop of \<open>_onUserTrades\<close>, in the order of the source: cash,
  holdings, the removal of an order that is not active, and only then the execution
  record and the event. \<open>del self.__activeOrders[order.getId()]\<close> raises KeyError when the
  key is missing. The order is one object, shared by the map and the event: what
  \<open>addExecutionInfo\<close> changes shows in the map's entry as long as the entry is there.\<close>

definition onUserTrade :: "trade \<Rightarrow> LiveBroker \<Rightarrow> unit result \<times> LiveBroker" where
  "onUserTrade trade b =
     (case activeOrders b (tradeOrderId trade) of
        None \<Rightarrow>
          (Return (),
           b\<lparr>effects := effects b @
                [Logger INFO ''Trade %d refered to order %d that is not active''
                   [I (tradeId trade), I (tradeOrderId trade)]]\<rparr>)
      | Some ord \<Rightarrow>
          (let fee = tradeFee trade;
               fillPrice = tradeBTCUSD trade;
               btcAmount = tradeBTC trade;
               usdAmount = tradeUSD trade;
               dateTime = tradeDateTime trade;
               b1 = b\<lparr>cash := dround (dsub (dadd (cash b) usdAmount) fee) 2\<rparr>;
               q = instrumentTraits ord
                     (dadd (case shares b1 btc_symbol of None \<Rightarrow> Finite 0 | Some s \<Rightarrow> s)
                        btcAmount);
               b2 = b1\<lparr>shares := (shares b1)(btc_symbol \<mapsto> q)\<rparr>;
               b3 = (if q = Finite 0 then b2\<lparr>shares := (shares b2)(btc_symbol := None)\<rparr>
                     else b2)
           in if \<not> isActive ord \<and> activeOrders b3 (orderId ord) = None
              then (Raise (KeyError (orderId ord)), b3)
              else
                (let b4 = (if \<not> isActive ord
                           then b3\<lparr>activeOrders := (activeOrders b3)(orderId ord := None)\<rparr>
                           else b3);
                     orderExecutionInfo =
                       \<lparr>execPrice = fillPrice, execQuantity = dabs btcAmount,
                        execCommission = fee, execDateTime = dateTime\<rparr>;
                     ord' = addExecutionInfo orderExecutionInfo ord;
                     b5 = (if activeOrders b4 (tradeOrderId trade) = None then b4
                           else b4\<lparr>activeOrders :=
                                    (activeOrders b4)(tradeOrderId trade \<mapsto> ord')\<rparr>);
                     eventType = (if isFilled ord' then EV_FILLED else EV_PARTIALLY_FILLED)
                 in (Return (),
                     b5\<lparr>effects := effects b5 @
                          [Notify (OrderEvent ord' eventType (ExecInfo orderExecutionInfo))]\<rparr>))))"

fun onUserTrades :: "trade list \<Rightarrow> LiveBroker \<Rightarrow> unit result \<times> LiveBroker" where
  "onUserTrades [] b = (Return (), b)"
| "onUserTrades (trade # trades) b =
     (case onUserTrade trade b of
        (Raise e, b1) \<Rightarrow> (Raise e, b1)
      | (Return _, b1) \<Rightarrow> onUserTrades trades b1)"

definition start ::
  "(double \<Rightarrow> double) \<Rightarrow> accountBalance result \<Rightarrow> openOrder list result \<Rightarrow> trade list result \<Rightarrow>
   LiveBroker \<Rightarrow> unit result \<times> LiveBroker" where
  "start traits balanceResp openOrdersResp tradesResp b =
     (case refreshAccountBalance balanceResp b of
        (Raise e, b1) \<Rightarrow> (Raise e, b1)
      | (Return _, b1) \<Rightarrow>
          (case refreshOpenOrders traits openOrdersResp b1 of
             (Raise e, b2) \<Rightarrow> (Raise e, b2)
           | (Return _, b2) \<Rightarrow> startTradeMonitor tradesResp b2))"

definition stop :: "LiveBroker \<Rightarrow> LiveBroker" where
  "stop b =
     b\<lparr>brk_stop := True,
       effects := effects b @ [Logger INFO ''Shutting down trade monitor.'' []],
       tradeMonitor := monitor_stop (tradeMonitor b)\<rparr>"


text \<open>\<open>dispatch\<close>: an empty queue is \<open>Queue.Empty\<close> after the timeout, which is passed
  over.\<close>

definition dispatch :: "LiveBroker \<Rightarrow> unit result \<times> LiveBroker" where
  "dispatch b =
     (case queue (tradeMonitor b) of
        [] \<Rightarrow> (Return (), b)
      | (eventType, eventData) # rest \<Rightarrow>
          (let b1 = b\<lparr>tradeMonitor := (tradeMonitor b)\<lparr>queue := rest\<rparr>\<rparr>
           in if eventType = ON_USER_TRADE then onUserTrades eventData b1
              else (Return (),
                    b1\<lparr>effects := effects b1 @
                         [Logger ERROR ''Invalid event received to dispatch: %s - %s''
                            [I eventType, D eventData]]\<rparr>)))"

definition getCash :: "LiveBroker \<Rightarrow> double" where
  "getCash b = cash b"

definition getShares :: "string \<Rightarrow> LiveBroker \<Rightarrow> double" where
  "getShares instrument b = (case shares b instrument of None \<Rightarrow> Finite 0 | Some q \<Rightarrow> q)"

definition getPositions :: "LiveBroker \<Rightarrow> unit result \<times> LiveBroker" where
  "getPositions b = (Raise NotImplementedError, b)"

definition submitOrder :: "Order \<Rightarrow> LiveBroker \<Rightarrow> unit result \<times> LiveBroker" where
  "submitOrder ord b = (Raise NotImplementedError, b)"

definition createMarketOrder ::
  "action \<Rightarrow> string \<Rightarrow> double \<Rightarrow> bool \<Rightarrow> LiveBroker \<Rightarrow> Order result \<times> LiveBroker" where
  "createMarketOrder act instrument quantity onClose b =
     (Raise (Exception ''Market orders are not supported''), b)"

definition createLimitOrder ::
  "action \<Rightarrow> string \<Rightarrow> double \<Rightarrow> double \<Rightarrow> LiveBroker \<Rightarrow> Order result \<times> LiveBroker" where
  "createLimitOrder act instrument limitPrice quantity b = (Raise NotImplementedError, b)"

definition createStopOrder ::
  "action \<Rightarrow> string \<Rightarrow> double \<Rightarrow> double \<Rightarrow> LiveBroker \<Rightarrow> Order result \<times> LiveBroker" where
  "createStopOrder act instrument stopPrice quantity b =
     (Raise (Exception ''Stop orders are not supported''), b)"

definition createStopLimitOrder ::
  "action \<Rightarrow> string \<Rightarrow> double \<Rightarrow> double \<Rightarrow> double \<Rightarrow> LiveBroker \<Rightarrow> Order result \<times> LiveBroker" where
  "createStopLimitOrder act instrument stopPrice limitPrice quantity b =
     (Raise (Exception ''Stop limit orders are not supported''), b)"

text \<open>\<open>cancelOrder\<close>: the exchange is asked first; \<open>resp\<close> is its answer. The order object
  is the caller's, so the order is returned next to the broker.\<close>

definition cancelOrder :: "unit result \<Rightarrow> Order \<Rightarrow> LiveBroker \<Rightarrow> unit result \<times> Order \<times> LiveBroker" where
  "cancelOrder resp ord b =
     (let b1 = b\<lparr>effects := effects b @ [Http (CancelOrder (orderId ord))]\<rparr>
      in case resp of
           Raise e \<Rightarrow> (Raise e, ord, b1)
         | Return _ \<Rightarrow>
             if activeOrders b1 (orderId ord) = None
             then (Raise (KeyError (orderId ord)), ord, b1)
             else
               (let b2 = b1\<lparr>activeOrders := (activeOrders b1)(orderId ord := None)\<rparr>;
                    ord' = switchState CANCELED ord
                in (Return (), ord',
                    b2\<lparr>effects := effects b2 @
                         [Notify (OrderEvent ord' EV_CANCELED
                                    (Message ''User requested cancellation''))]\<rparr>)))"

subsection \<open>The feed as the poller assumes it, and what it should publish\<close>

text \<open>A snapshot is newest-first when its ids never increase along the list. A feed is
  the list of the answers to the successive fetches; a fetch whose exception is not an
  instance of \<open>Exception\<close> ends the thread, so the answers after it are never asked
  for.\<close>

definition newestFirst :: "trade list \<Rightarrow> bool" where
  "newestFirst ts = sorted_wrt (\<ge>) (map tradeId ts)"

fun feedNewestFirst :: "trade list result list \<Rightarrow> bool" where
  "feedNewestFirst [] = True"
| "feedNewestFirst (Raise e # resps) = (if isException e then feedNewestFirst resps else True)"
| "feedNewestFirst (Return ts # resps) = (newestFirst ts \<and> feedNewestFirst resps)"

text \<open>The ids of all the trades the fetches returned.\<close>

fun observedIds :: "trade list result list \<Rightarrow> int list" where
  "observedIds [] = []"
| "observedIds (Raise e # resps) = (if isException e then observedIds resps else [])"
| "observedIds (Return ts # resps) = map tradeId ts @ observedIds resps"

text \<open>The batches as the specification words them: in each cycle, the fetched trades
  with an id above the watermark, oldest first, published when there are any; the
  watermark becomes the greatest id seen. A failed fetch publishes nothing.\<close>

fun spec_batches :: "int \<Rightarrow> trade list result list \<Rightarrow> trade list list" where
  "spec_batches w [] = []"
| "spec_batches w (Raise e # resps) = (if isException e then spec_batches w resps else [])"
| "spec_batches w (Return ts # resps) =
     (let new = rev (filter (\<lambda>t. w < tradeId t) ts)
      in (if new = [] then [] else [new]) @
         spec_batches (Max (insert w (set (map tradeId ts)))) resps)"

text \<open>Whether every failed fetch of the feed fails with an instance of \<open>Exception\<close>.\<close>

fun feedRaisesExceptionsOnly :: "trade list result list \<Rightarrow> bool" where
  "feedRaisesExceptionsOnly [] = True"
| "feedRaisesExceptionsOnly (Raise e # resps) = (isException e \<and> feedRaisesExceptionsOnly resps)"
| "feedRaisesExceptionsOnly (Return ts # resps) = feedRaisesExceptionsOnly resps"

subsection \<open>Sample data of the concrete instances\<close>

text \<open>A trade whose amounts are the doubles nearest to the given decimals.\<close>

definition sampleTrade :: "int \<Rightarrow> int \<Rightarrow> rat \<Rightarrow> rat \<Rightarrow> rat \<Rightarrow> trade" where
  "sampleTrade i oid btc usd fee =
     \<lparr>tradeId = i, tradeOrderId = oid, tradeBTCUSD = Finite 100, tradeBTC = fl btc,
      tradeUSD = fl usd, tradeFee = fl fee, tradeDateTime = i\<rparr>"

text \<open>Quantities rounded to eight decimals.\<close>

definition sampleTraits :: "double \<Rightarrow> double" where
  "sampleTraits q = dround q 8"

definition sampleOpenOrder :: "int \<Rightarrow> bool \<Rightarrow> bool \<Rightarrow> rat \<Rightarrow> rat \<Rightarrow> openOrder" where
  "sampleOpenOrder i buy sell p q =
     \<lparr>openId = i, openIsBuy = buy, openIsSell = sell, openPrice = fl p, openAmount = fl q,
      openDateTime = 0\<rparr>"

text \<open>The order of the specification's scenario: O1, buy 1.0 BTC at 100, accepted.\<close>

definition sampleOrder :: Order where
  "sampleOrder =
     (LimitOrder 1 BUY btc_symbol (fl 100) (fl 1) sampleTraits)
     \<lparr>orderState := ACCEPTED, submitDateTime := Some 0\<rparr>"

text \<open>The broker of the scenario after \<open>start\<close>: balance 1000.00 USD and 0 BTC, the open
  order O1, no trade yet.\<close>

definition sampleBalance :: accountBalance where
  "sampleBalance = \<lparr>usdAvailable = Finite 1000, btcAvailable = Finite 0\<rparr>"

definition sampleBroker :: LiveBroker where
  "sampleBroker =
     snd (start sampleTraits (Return sampleBalance)
            (Return [sampleOpenOrder 1 True False 100 1]) (Return []) LiveBroker_init)"

text \<open>The two trades of the scenario: 0.4 BTC for 40.00 with fee 0.10, then 0.6 BTC for
  60.00 with fee 0.15, both for O1.\<close>

definition sampleFill1 :: trade where
  "sampleFill1 = sampleTrade 1 1 (4 / 10) (- 40) (1 / 10)"

definition sampleFill2 :: trade where
  "sampleFill2 = sampleTrade 2 1 (6 / 10) (- 60) (15 / 100)"

text \<open>Trades for O1 whose cash needs rounding: 0.005 onto a cash of 1.00, and 40.004 with
  a fee of 0.10 off a cash of 1000.00.\<close>

definition sampleHalfCent :: trade where
  "sampleHalfCent = sampleTrade 3 1 0 (5 / 1000) 0"

definition sampleOddCents :: trade where
  "sampleOddCents = sampleTrade 4 1 0 (- 40004 / 1000) (1 / 10)"

section \<open>Properties\<close>

subsection \<open>The poller loop and failed fetches\<close>

lemma newTradesLoop_takeWhile:
  "newTradesLoop w ts ret = ret @ takeWhile (\<lambda>t. w < tradeId t) ts"
  by (induction ts arbitrary: ret) auto

lemma run_cycle_Raise_caught:
  "isException e \<Longrightarrow>
   run_cycle (Raise e) m =
     (Return (),
      m\<lparr>mon_effects := mon_effects m @
        [Http GetUserTransactions,
         LoggerExc CRITICAL ''Error retrieving user transactions'' e,
         Sleep POLL_FREQUENCY]\<rparr>)"
  by (simp add: run_cycle_def run_try_def getNewTrades_def)

lemma run_cycle_Raise_uncaught:
  "\<not> isException e \<Longrightarrow>
   run_cycle (Raise e) m =
     (Raise e, m\<lparr>mon_effects := mon_effects m @ [Http GetUserTransactions]\<rparr>)"
  by (simp add: run_cycle_def run_try_def getNewTrades_def)

lemma run_cycle_Return_fst [simp]: "fst (run_cycle (Return ts) m) = Return ()"
  by (simp add: run_cycle_def run_try_def getNewTrades_def Let_def)

lemma run_cycle_mon_stop [simp]: "mon_stop (snd (run_cycle resp m)) = mon_stop m"
  by (cases resp) (simp_all add: run_cycle_def run_try_def getNewTrades_def Let_def)

lemma run_Cons_Return:
  "\<not> mon_stop m \<Longrightarrow> fst (run_cycle r m) = Return () \<Longrightarrow>
   run (r # rs) m = run rs (snd (run_cycle r m))"
  by (cases "run_cycle r m") simp

lemma run_Cons_Raise:
  "\<not> mon_stop m \<Longrightarrow> fst (run_cycle r m) = Raise e \<Longrightarrow>
   run (r # rs) m = (Raise e, snd (run_cycle r m))"
  by (cases "run_cycle r m") simp

lemma run_Cons_uncaught:
  "\<not> mon_stop m \<Longrightarrow> \<not> isException e \<Longrightarrow>
   run (Raise e # rs) m =
     (Raise e, m\<lparr>mon_effects := mon_effects m @ [Http GetUserTransactions]\<rparr>)"
  by (simp add: run_cycle_Raise_uncaught)

lemma run_stopped [simp]: "mon_stop m \<Longrightarrow> run resps m = (Return (), m)"
  by (cases resps) simp_all

declare run.simps(2) [simp del]

lemma run_cycle_sleeps:
  "fst (run_cycle resp m) = Return () \<Longrightarrow>
   length (filter (\<lambda>x. x = Sleep POLL_FREQUENCY) (mon_effects (snd (run_cycle resp m)))) =
   Suc (length (filter (\<lambda>x. x = Sleep POLL_FREQUENCY) (mon_effects m)))"
  by (cases resp)
     (simp_all add: run_cycle_def run_try_def getNewTrades_def Let_def split: if_splits)

lemma run_cycle_fst:
  "feedRaisesExceptionsOnly (resp # resps) \<Longrightarrow> fst (run_cycle resp m) = Return ()"
  by (cases resp) (simp_all add: run_cycle_Raise_caught)

lemma run_sleeps:
  "feedRaisesExceptionsOnly resps \<Longrightarrow>
   fst (run resps m) = Return () \<and>
   length (filter (\<lambda>x. x = Sleep POLL_FREQUENCY) (mon_effects (snd (run resps m)))) =
   length (filter (\<lambda>x. x = Sleep POLL_FREQUENCY) (mon_effects m)) +
     (if mon_stop m then 0 else length resps)"
proof (induction resps arbitrary: m)
  case Nil
  show ?case by simp
next
  case (Cons resp resps)
  show ?case
  proof (cases "mon_stop m")
    case True
    then show ?thesis by simp
  next
    case False
    have ok: "fst (run_cycle resp m) = Return ()"
      using Cons.prems by (rule run_cycle_fst)
    have rest: "feedRaisesExceptionsOnly resps"
      using Cons.prems by (cases resp) simp_all
    show ?thesis
      using False Cons.IH [OF rest, of "snd (run_cycle resp m)"]
      by (simp add: run_Cons_Return [OF False ok] run_cycle_sleeps [OF ok])
  qed
qed

text \<open>
  C7, as amended. A cycle of the poller loop whose fetch raises an instance \<open>e\<close> of
  \<open>Exception\<close> logs the failure (one critical record carrying \<open>e\<close>), leaves the watermark,
  the queue and the stop flag as they were, sleeps for the polling interval, and the loop
  goes on with the next cycle unless the stop flag is set. When every failed fetch of a
  feed fails with an instance of \<open>Exception\<close>, the loop ends by itself (no exception
  leaves it) and, unless stopped, has run every cycle: it has slept once per answer.
\<close>

theorem fetch_failure_is_logged_and_skipped:
  assumes "isException e"
  shows "run_cycle (Raise e) m =
           (Return (),
            m\<lparr>mon_effects := mon_effects m @
              [Http GetUserTransactions,
               LoggerExc CRITICAL ''Error retrieving user transactions'' e,
               Sleep POLL_FREQUENCY]\<rparr>) \<and>
         lastTradeId (snd (run_cycle (Raise e) m)) = lastTradeId m \<and>
         queue (snd (run_cycle (Raise e) m)) = queue m \<and>
         mon_stop (snd (run_cycle (Raise e) m)) = mon_stop m \<and>
         run (Raise e # resps) m =
           (if mon_stop m then (Return (), m) else run resps (snd (run_cycle (Raise e) m))) \<and>
         (feedRaisesExceptionsOnly resps \<longrightarrow>
            fst (run resps m) = Return () \<and>
            length (filter (\<lambda>x. x = Sleep POLL_FREQUENCY) (mon_effects (snd (run resps m)))) =
              length (filter (\<lambda>x. x = Sleep POLL_FREQUENCY) (mon_effects m)) +
                (if mon_stop m then 0 else length resps))"
proof -
  have c: "run_cycle (Raise e) m =
           (Return (),
            m\<lparr>mon_effects := mon_effects m @
              [Http GetUserTransactions,
               LoggerExc CRITICAL ''Error retrieving user transactions'' e,
               Sleep POLL_FREQUENCY]\<rparr>)"
    using assms by (rule run_cycle_Raise_caught)
  have r: "run (Raise e # resps) m =
           (if mon_stop m then (Return (), m) else run resps (snd (run_cycle (Raise e) m)))"
    by (simp add: c run_Cons_Return)
  show ?thesis
    unfolding r by (simp add: c run_sleeps)
qed

text \<open>
  C7 as stated fails for an exception that is not an instance of \<open>Exception\<close>: when the
  fetch raises \<open>SystemExit\<close>, the handler does not catch it, nothing is logged, there is no
  sleep, and the exception leaves \<open>run\<close>: the thread ends and the next fetch is never
  made.
\<close>

theorem uncaught_exception_ends_poller_counterexample:
  "run_cycle (Raise SystemExit) TradeMonitor_init =
     (Raise SystemExit, TradeMonitor_init\<lparr>mon_effects := [Http GetUserTransactions]\<rparr>) \<and>
   run [Raise SystemExit, Return []] TradeMonitor_init =
     (Raise SystemExit, TradeMonitor_init\<lparr>mon_effects := [Http GetUserTransactions]\<rparr>)"
  by (simp add: run.simps(2) run_cycle_def run_try_def getNewTrades_def TradeMonitor_init_def)

theorem fetch_failure_is_logged_and_skipped_witness:
  "isException (Exception ''timed out'') \<and>
   feedRaisesExceptionsOnly [Raise (Exception ''timed out''), Return []] \<and>
   run_cycle (Raise (Exception ''timed out'')) TradeMonitor_init =
     (Return (),
      TradeMonitor_init\<lparr>mon_effects :=
        [Http GetUserTransactions,
         LoggerExc CRITICAL ''Error retrieving user transactions'' (Exception ''timed out''),
         Sleep POLL_FREQUENCY]\<rparr>) \<and>
   fst (run [Raise (Exception ''timed out''), Return []] TradeMonitor_init) = Return () \<and>
   length (filter (\<lambda>x. x = Sleep POLL_FREQUENCY)
     (mon_effects (snd (run [Raise (Exception ''timed out''), Return []] TradeMonitor_init)))) = 2"
proof -
  have h: "isException (Exception ''timed out'')" by simp
  have f: "feedRaisesExceptionsOnly [Raise (Exception ''timed out''), Return []]" by simp
  have i: "mon_effects TradeMonitor_init = []" "mon_stop TradeMonitor_init = False"
    by (simp_all add: TradeMonitor_init_def)
  from fetch_failure_is_logged_and_skipped
         [OF h, of TradeMonitor_init "[Raise (Exception ''timed out''), Return []]"] h f
  show ?thesis
    by (simp add: i run.simps(2) run_cycle_def run_try_def getNewTrades_def)
qed

subsection \<open>The watermark and the published batches\<close>

lemma run_cycle_lastTradeId:
  "lastTradeId (snd (run_cycle (Return ts) m)) =
     (if takeWhile (\<lambda>t. lastTradeId m < tradeId t) ts = [] then lastTradeId m
      else tradeId (hd ts))"
  by (cases ts)
     (simp_all add: run_cycle_def run_try_def getNewTrades_def Let_def newTradesLoop_takeWhile
        last_rev)

lemma run_cycle_queue:
  "queue (snd (run_cycle (Return ts) m)) = queue m @
     (if takeWhile (\<lambda>t. lastTradeId m < tradeId t) ts = [] then []
      else [(ON_USER_TRADE, rev (takeWhile (\<lambda>t. lastTradeId m < tradeId t) ts))])"
  by (simp add: run_cycle_def run_try_def getNewTrades_def Let_def newTradesLoop_takeWhile)

lemma run_cycle_Raise_frame:
  "lastTradeId (snd (run_cycle (Raise e) m)) = lastTradeId m \<and>
   queue (snd (run_cycle (Raise e) m)) = queue m"
  by (cases "isException e") (simp_all add: run_cycle_Raise_caught run_cycle_Raise_uncaught)

lemma newestFirst_takeWhile:
  "newestFirst ts \<Longrightarrow> takeWhile (\<lambda>t. w < tradeId t) ts = filter (\<lambda>t. w < tradeId t) ts"
  unfolding newestFirst_def
  by (induction ts) (auto simp: filter_empty_conv empty_filter_conv)

lemma newestFirst_hd_Max:
  "newestFirst ts \<Longrightarrow> ts \<noteq> [] \<Longrightarrow> Max (set (map tradeId ts)) = tradeId (hd ts)"
  unfolding newestFirst_def
  by (cases ts) (auto intro!: Max_eqI)

lemma run_cycle_watermark_Max:
  assumes "newestFirst ts"
  shows "lastTradeId (snd (run_cycle (Return ts) m)) =
           Max (insert (lastTradeId m) (set (map tradeId ts)))"
proof (cases "filter (\<lambda>t. lastTradeId m < tradeId t) ts = []")
  case True
  then have "\<forall>t\<in>set ts. tradeId t \<le> lastTradeId m"
    by (auto simp: filter_empty_conv)
  then have "Max (insert (lastTradeId m) (set (map tradeId ts))) = lastTradeId m"
    by (intro Max_eqI) auto
  with True assms show ?thesis
    by (simp add: run_cycle_lastTradeId newestFirst_takeWhile)
next
  case False
  then have ne: "ts \<noteq> []" by auto
  from False assms have "takeWhile (\<lambda>t. lastTradeId m < tradeId t) ts \<noteq> []"
    by (simp add: newestFirst_takeWhile)
  then have gt: "lastTradeId m < tradeId (hd ts)"
    using ne by (cases ts) (auto split: if_splits)
  have "Max (insert (lastTradeId m) (set (map tradeId ts))) =
        max (lastTradeId m) (Max (set (map tradeId ts)))"
    using ne by simp
  also have "\<dots> = tradeId (hd ts)"
    using gt newestFirst_hd_Max [OF assms ne] by simp
  finally show ?thesis
    using False assms by (simp add: run_cycle_lastTradeId newestFirst_takeWhile)
qed

lemma Max_insert_Max:
  fixes w :: int
  assumes "finite A" and "finite B"
  shows "Max (insert (Max (insert w A)) B) = Max (insert w (A \<union> B))"
proof (cases "B = {}")
  case True
  then show ?thesis by simp
next
  case False
  have "Max (insert (Max (insert w A)) B) = max (Max (insert w A)) (Max B)"
    using assms(2) False by (rule Max_insert)
  moreover have "Max (insert w A \<union> B) = max (Max (insert w A)) (Max B)"
    using assms False by (intro Max_Un) simp_all
  ultimately show ?thesis by simp
qed

lemma run_mon_stop [simp]: "mon_stop (snd (run resps m)) = mon_stop m"
proof (induction resps arbitrary: m)
  case Nil
  show ?case by simp
next
  case (Cons r resps)
  show ?case
  proof (cases "mon_stop m")
    case True
    then show ?thesis by simp
  next
    case False
    show ?thesis
    proof (cases "fst (run_cycle r m)")
      case (Raise e)
      then show ?thesis using False by (simp add: run_Cons_Raise)
    next
      case (Return u)
      then show ?thesis using False Cons.IH by (simp add: run_Cons_Return)
    qed
  qed
qed

lemma run_append:
  "run (a @ b) m =
     (case run a m of (Raise e, m1) \<Rightarrow> (Raise e, m1) | (Return u, m1) \<Rightarrow> run b m1)"
proof (induction a arbitrary: m)
  case Nil
  show ?case by simp
next
  case (Cons r a)
  show ?case
  proof (cases "mon_stop m")
    case True
    then show ?thesis by simp
  next
    case False
    show ?thesis
    proof (cases "fst (run_cycle r m)")
      case (Raise e)
      with False have "run (r # a) m = (Raise e, snd (run_cycle r m))"
        and "run ((r # a) @ b) m = (Raise e, snd (run_cycle r m))"
        by (simp_all add: run_Cons_Raise)
      then show ?thesis by simp
    next
      case (Return u)
      with False have "run (r # a) m = run a (snd (run_cycle r m))"
        and "run ((r # a) @ b) m = run (a @ b) (snd (run_cycle r m))"
        by (simp_all add: run_Cons_Return)
      then show ?thesis using Cons.IH by simp
    qed
  qed
qed

lemma run_cycle_mono: "lastTradeId m \<le> lastTradeId (snd (run_cycle resp m))"
proof (cases resp)
  case (Raise e)
  then show ?thesis by (simp add: run_cycle_Raise_frame)
next
  case (Return ts)
  then show ?thesis by (cases ts) (simp_all add: run_cycle_lastTradeId)
qed

lemma run_mono: "lastTradeId m \<le> lastTradeId (snd (run resps m))"
proof (induction resps arbitrary: m)
  case Nil
  show ?case by simp
next
  case (Cons r resps)
  show ?case
  proof (cases "mon_stop m")
    case True
    then show ?thesis by simp
  next
    case False
    have le: "lastTradeId m \<le> lastTradeId (snd (run_cycle r m))" by (rule run_cycle_mono)
    show ?thesis
    proof (cases "fst (run_cycle r m)")
      case (Raise e)
      then show ?thesis using False le by (simp add: run_Cons_Raise)
    next
      case (Return u)
      have "lastTradeId (snd (run_cycle r m)) \<le> lastTradeId (snd (run resps (snd (run_cycle r m))))"
        by (rule Cons.IH)
      with le Return False show ?thesis by (simp add: run_Cons_Return)
    qed
  qed
qed

lemma run_watermark_Max:
  "\<not> mon_stop m \<Longrightarrow> feedNewestFirst resps \<Longrightarrow>
   lastTradeId (snd (run resps m)) = Max (insert (lastTradeId m) (set (observedIds resps)))"
proof (induction resps arbitrary: m)
  case Nil
  show ?case by simp
next
  case (Cons r resps)
  show ?case
  proof (cases r)
    case (Raise e)
    show ?thesis
    proof (cases "isException e")
      case True
      with Raise Cons.prems have rest: "feedNewestFirst resps" by simp
      have "run (r # resps) m = run resps (snd (run_cycle r m))"
        using Cons.prems(1) Raise True by (simp add: run_Cons_Return run_cycle_Raise_caught)
      moreover have "lastTradeId (snd (run resps (snd (run_cycle r m)))) =
            Max (insert (lastTradeId (snd (run_cycle r m))) (set (observedIds resps)))"
        using Cons.prems(1) rest by (intro Cons.IH) simp_all
      ultimately show ?thesis
        using Raise True by (simp add: run_cycle_Raise_frame)
    next
      case False
      with Raise Cons.prems(1) show ?thesis
        by (simp add: run_Cons_uncaught)
    qed
  next
    case (Return ts)
    with Cons.prems have nf: "newestFirst ts" and rest: "feedNewestFirst resps" by simp_all
    have "lastTradeId (snd (run (r # resps) m)) =
          lastTradeId (snd (run resps (snd (run_cycle r m))))"
      using Cons.prems(1) Return by (simp add: run_Cons_Return)
    also have "\<dots> = Max (insert (lastTradeId (snd (run_cycle r m))) (set (observedIds resps)))"
      using Cons.prems(1) rest by (intro Cons.IH) simp_all
    also have "\<dots> = Max (insert (Max (insert (lastTradeId m) (set (map tradeId ts))))
                        (set (observedIds resps)))"
      using Return nf by (simp add: run_cycle_watermark_Max)
    also have "\<dots> = Max (insert (lastTradeId m)
                        (set (map tradeId ts) \<union> set (observedIds resps)))"
      by (rule Max_insert_Max) simp_all
    finally show ?thesis using Return by simp
  qed
qed

lemma run_queue_spec:
  "\<not> mon_stop m \<Longrightarrow> feedNewestFirst resps \<Longrightarrow>
   queue (snd (run resps m)) =
     queue m @ map (Pair ON_USER_TRADE) (spec_batches (lastTradeId m) resps)"
proof (induction resps arbitrary: m)
  case Nil
  show ?case by simp
next
  case (Cons r resps)
  show ?case
  proof (cases r)
    case (Raise e)
    show ?thesis
    proof (cases "isException e")
      case True
      with Raise Cons.prems have rest: "feedNewestFirst resps" by simp
      have "run (r # resps) m = run resps (snd (run_cycle r m))"
        using Cons.prems(1) Raise True by (simp add: run_Cons_Return run_cycle_Raise_caught)
      moreover have "queue (snd (run resps (snd (run_cycle r m)))) =
            queue (snd (run_cycle r m)) @
              map (Pair ON_USER_TRADE) (spec_batches (lastTradeId (snd (run_cycle r m))) resps)"
        using Cons.prems(1) rest by (intro Cons.IH) simp_all
      ultimately show ?thesis
        using Raise True by (simp add: run_cycle_Raise_frame)
    next
      case False
      with Raise Cons.prems(1) show ?thesis
        by (simp add: run_Cons_uncaught)
    qed
  next
    case (Return ts)
    with Cons.prems have nf: "newestFirst ts" and rest: "feedNewestFirst resps" by simp_all
    have "queue (snd (run resps (snd (run_cycle r m)))) =
          queue (snd (run_cycle r m)) @
            map (Pair ON_USER_TRADE) (spec_batches (lastTradeId (snd (run_cycle r m))) resps)"
      using Cons.prems(1) rest by (intro Cons.IH) simp_all
    then show ?thesis
      using Cons.prems(1) Return nf
      by (simp add: run_Cons_Return run_cycle_queue run_cycle_watermark_Max
          newestFirst_takeWhile Let_def)
  qed
qed

lemma newestFirst_batch_sorted:
  "newestFirst ts \<Longrightarrow> sorted (map tradeId (rev (filter P ts)))"
proof -
  assume "newestFirst ts"
  then have "sorted_wrt (\<lambda>x y. tradeId y \<le> tradeId x) ts"
    by (simp add: newestFirst_def sorted_wrt_map)
  then have "sorted_wrt (\<lambda>x y. tradeId y \<le> tradeId x) (filter P ts)"
    by (rule sorted_wrt_filter)
  then have "sorted_wrt (\<lambda>x y. tradeId x \<le> tradeId y) (rev (filter P ts))"
    by (simp add: sorted_wrt_rev)
  then show ?thesis
    by (simp add: sorted_wrt_map)
qed

lemma spec_batches_sorted:
  "feedNewestFirst resps \<Longrightarrow> batch \<in> set (spec_batches w resps) \<Longrightarrow>
   sorted (map tradeId batch)"
proof (induction resps arbitrary: w)
  case Nil
  then show ?case by simp
next
  case (Cons r resps)
  show ?case
  proof (cases r)
    case (Raise e)
    with Cons show ?thesis by (cases "isException e") simp_all
  next
    case (Return ts)
    with Cons.prems have nf: "newestFirst ts" and rest: "feedNewestFirst resps" by simp_all
    from Cons.prems(2) Return
    consider "batch = rev (filter (\<lambda>t. w < tradeId t) ts)"
      | "batch \<in> set (spec_batches (Max (insert w (set (map tradeId ts)))) resps)"
      by (auto simp: Let_def split: if_splits)
    then show ?thesis
    proof cases
      case 1
      then show ?thesis using nf by (simp only: newestFirst_batch_sorted)
    next
      case 2
      then show ?thesis using rest by (rule Cons.IH [rotated])
    qed
  qed
qed

lemma run_cycle_published:
  "\<exists>new. queue (snd (run_cycle r m)) = queue m @ new \<and>
     (\<forall>p\<in>set new. \<forall>t\<in>set (snd p). lastTradeId m < tradeId t)"
proof (cases r)
  case (Raise e)
  then show ?thesis by (simp add: run_cycle_Raise_frame)
next
  case (Return ts)
  then show ?thesis
    by (auto simp: run_cycle_queue dest: set_takeWhileD)
qed

lemma run_published:
  "\<exists>new. queue (snd (run resps m)) = queue m @ new \<and>
     (\<forall>p\<in>set new. \<forall>t\<in>set (snd p). lastTradeId m < tradeId t)"
proof (induction resps arbitrary: m)
  case Nil
  show ?case by simp
next
  case (Cons r resps)
  show ?case
  proof (cases "mon_stop m")
    case True
    then show ?thesis by simp
  next
    case False
    obtain n1 where n1: "queue (snd (run_cycle r m)) = queue m @ n1"
      "\<forall>p\<in>set n1. \<forall>t\<in>set (snd p). lastTradeId m < tradeId t"
      using run_cycle_published by blast
    show ?thesis
    proof (cases "fst (run_cycle r m)")
      case (Raise e)
      then show ?thesis using False n1 by (simp add: run_Cons_Raise)
    next
      case (Return u)
      obtain n2 where n2:
        "queue (snd (run resps (snd (run_cycle r m)))) = queue (snd (run_cycle r m)) @ n2"
        "\<forall>p\<in>set n2. \<forall>t\<in>set (snd p). lastTradeId (snd (run_cycle r m)) < tradeId t"
        using Cons.IH by blast
      have le: "lastTradeId m \<le> lastTradeId (snd (run_cycle r m))" by (rule run_cycle_mono)
      have "\<forall>p\<in>set (n1 @ n2). \<forall>t\<in>set (snd p). lastTradeId m < tradeId t"
        using n1(2) n2(2) le by fastforce
      moreover have "queue (snd (run (r # resps) m)) = queue m @ (n1 @ n2)"
        using False Return n1(1) n2(1) by (simp add: run_Cons_Return)
      ultimately show ?thesis by blast
    qed
  qed
qed

lemma run_published_drop:
  "\<forall>p\<in>set (drop (length (queue m)) (queue (snd (run resps m)))).
     \<forall>t\<in>set (snd p). lastTradeId m < tradeId t"
proof -
  obtain new where "queue (snd (run resps m)) = queue m @ new"
    "\<forall>p\<in>set new. \<forall>t\<in>set (snd p). lastTradeId m < tradeId t"
    using run_published by blast
  then show ?thesis by simp
qed

text \<open>
  C3, as amended. Provided every fetched snapshot is newest-first, across any sequence of
  poller cycles \<open>a @ b\<close> of a running poller: the watermark never decreases from one
  point of the sequence to a later one; at the end it is the greatest of its initial
  value and all the trade ids fetched; the queue has received exactly the batches of
  \<open>spec_batches\<close> (per cycle, the fetched trades above the watermark of that moment,
  when there are any); every batch is oldest-first; and every trade published after a
  point of the sequence has an id above the watermark of that point.
\<close>

theorem watermark_is_max_and_batches_are_new:
  assumes "\<not> mon_stop m" and "feedNewestFirst (a @ b)"
  shows "lastTradeId (snd (run a m)) \<le> lastTradeId (snd (run (a @ b) m)) \<and>
         lastTradeId (snd (run (a @ b) m)) =
           Max (insert (lastTradeId m) (set (observedIds (a @ b)))) \<and>
         queue (snd (run (a @ b) m)) =
           queue m @ map (Pair ON_USER_TRADE) (spec_batches (lastTradeId m) (a @ b)) \<and>
         (\<forall>batch\<in>set (spec_batches (lastTradeId m) (a @ b)). sorted (map tradeId batch)) \<and>
         (\<forall>p\<in>set (drop (length (queue (snd (run a m)))) (queue (snd (run (a @ b) m)))).
            \<forall>t\<in>set (snd p). lastTradeId (snd (run a m)) < tradeId t)"
proof -
  have split: "snd (run (a @ b) m) = snd (run a m) \<or>
               snd (run (a @ b) m) = snd (run b (snd (run a m)))"
    by (cases "run a m") (auto simp: run_append split: result.splits)
  have 1: "lastTradeId (snd (run a m)) \<le> lastTradeId (snd (run (a @ b) m))"
    using split run_mono [of "snd (run a m)" b] by auto
  have 2: "lastTradeId (snd (run (a @ b) m)) =
           Max (insert (lastTradeId m) (set (observedIds (a @ b))))"
    using assms by (rule run_watermark_Max)
  have 3: "queue (snd (run (a @ b) m)) =
           queue m @ map (Pair ON_USER_TRADE) (spec_batches (lastTradeId m) (a @ b))"
    using assms by (rule run_queue_spec)
  have 4: "\<forall>batch\<in>set (spec_batches (lastTradeId m) (a @ b)). sorted (map tradeId batch)"
    using assms(2) by (blast intro: spec_batches_sorted)
  have 5: "\<forall>p\<in>set (drop (length (queue (snd (run a m)))) (queue (snd (run (a @ b) m)))).
            \<forall>t\<in>set (snd p). lastTradeId (snd (run a m)) < tradeId t"
    using split run_published_drop [of "snd (run a m)" b] by auto
  from 1 2 3 4 5 show ?thesis by blast
qed

text \<open>
  C3 as stated fails on a snapshot that is not newest-first: from the initial watermark,
  the fetch of the trades 5 and 7 in this order publishes the batch 7, 5 and sets the
  watermark to 5, below the greatest id observed.
\<close>

theorem watermark_below_max_counterexample:
  "lastTradeId (snd (run [Return [sampleTrade 5 1 0 0 0, sampleTrade 7 1 0 0 0]]
                       TradeMonitor_init)) = 5 \<and>
   Max (set (observedIds [Return [sampleTrade 5 1 0 0 0, sampleTrade 7 1 0 0 0]])) = 7 \<and>
   lastTradeId (snd (run [Return [sampleTrade 5 1 0 0 0, sampleTrade 7 1 0 0 0]]
                       TradeMonitor_init)) \<noteq>
     Max (set (observedIds [Return [sampleTrade 5 1 0 0 0, sampleTrade 7 1 0 0 0]])) \<and>
   queue (snd (run [Return [sampleTrade 5 1 0 0 0, sampleTrade 7 1 0 0 0]]
                 TradeMonitor_init)) =
     [(ON_USER_TRADE, [sampleTrade 7 1 0 0 0, sampleTrade 5 1 0 0 0])]"
  by (simp add: run.simps(2) run_cycle_def run_try_def getNewTrades_def TradeMonitor_init_def
      sampleTrade_def)

theorem watermark_is_max_and_batches_are_new_witness:
  "\<not> mon_stop TradeMonitor_init \<and>
   feedNewestFirst ([Return [sampleTrade 7 1 0 0 0, sampleTrade 5 1 0 0 0]] @
                    [Raise (Exception ''timeout''),
                     Return [sampleTrade 9 1 0 0 0, sampleTrade 7 1 0 0 0, sampleTrade 5 1 0 0 0]]) \<and>
   lastTradeId (snd (run ([Return [sampleTrade 7 1 0 0 0, sampleTrade 5 1 0 0 0]] @
                    [Raise (Exception ''timeout''),
                     Return [sampleTrade 9 1 0 0 0, sampleTrade 7 1 0 0 0, sampleTrade 5 1 0 0 0]])
        TradeMonitor_init)) = 9 \<and>
   queue (snd (run ([Return [sampleTrade 7 1 0 0 0, sampleTrade 5 1 0 0 0]] @
                    [Raise (Exception ''timeout''),
                     Return [sampleTrade 9 1 0 0 0, sampleTrade 7 1 0 0 0, sampleTrade 5 1 0 0 0]])
        TradeMonitor_init)) =
     [(ON_USER_TRADE, [sampleTrade 5 1 0 0 0, sampleTrade 7 1 0 0 0]),
      (ON_USER_TRADE, [sampleTrade 9 1 0 0 0])]"
proof -
  have h1: "\<not> mon_stop TradeMonitor_init"
    by (simp add: TradeMonitor_init_def)
  have h2: "feedNewestFirst ([Return [sampleTrade 7 1 0 0 0, sampleTrade 5 1 0 0 0]] @
                    [Raise (Exception ''timeout''),
                     Return [sampleTrade 9 1 0 0 0, sampleTrade 7 1 0 0 0, sampleTrade 5 1 0 0 0]])"
    by (simp add: newestFirst_def sampleTrade_def)
  have e: "lastTradeId TradeMonitor_init = - 1" "queue TradeMonitor_init = []"
    by (simp_all add: TradeMonitor_init_def)
  show ?thesis
    using h1 h2 watermark_is_max_and_batches_are_new [OF h1 h2]
    by (simp add: e sampleTrade_def Let_def)
qed

subsection \<open>Floats at known values\<close>

text \<open>The double nearest to 0.1; 0.1 + 0.2, which is 0.30000000000000004; \<open>round(2.675, 2)\<close>,
  which is 2.67 since the double 2.675 lies under the decimal; and \<open>round(0.125, 2)\<close>, an
  exact tie, which goes away from zero to 0.13.\<close>

lemma double_nearest_tenth: "fl (1 / 10) = Finite (3602879701896397 / 36028797018963968)"
  by code_simp

lemma double_sum_rounds:
  "dadd (fl (1 / 10)) (fl (2 / 10)) = Finite (1351079888211149 / 4503599627370496)"
  by code_simp

lemma double_round_below_tie: "dround (fl (2675 / 1000)) 2 = fl (267 / 100)"
  by code_simp

lemma double_round_tie: "dround (fl (125 / 1000)) 2 = fl (13 / 100)"
  by code_simp

subsection \<open>Evaluating the scenario\<close>

lemma sampleBroker_orders: "activeOrders sampleBroker = [1 \<mapsto> sampleOrder]"
  by (simp add: sampleBroker_def start_def refreshAccountBalance_def refreshOpenOrders_def
      startTradeMonitor_def monitor_start_def getNewTrades_def build_order_from_open_order_def
      sampleOpenOrder_def sampleOrder_def LiveBroker_init_def TradeMonitor_init_def Let_def)

lemma sampleBroker_running:
  "brk_stop sampleBroker = False" "started (tradeMonitor sampleBroker) = True"
  by (simp_all add: sampleBroker_def start_def refreshAccountBalance_def refreshOpenOrders_def
      startTradeMonitor_def monitor_start_def getNewTrades_def build_order_from_open_order_def
      sampleOpenOrder_def LiveBroker_init_def TradeMonitor_init_def Let_def)

lemma sampleBroker_balance:
  "cash sampleBroker = Finite 1000 \<and> shares sampleBroker btc_symbol = Some (Finite 0)"
  by code_simp

lemma sample_trade_ids:
  "tradeOrderId sampleFill1 = 1" "tradeOrderId sampleFill2 = 1"
  "tradeOrderId sampleHalfCent = 1" "tradeOrderId sampleOddCents = 1"
  by (simp_all add: sampleFill1_def sampleFill2_def sampleHalfCent_def sampleOddCents_def
      sampleTrade_def)

subsection \<open>Cash\<close>

lemma py_round_2_nearest:
  "\<exists>k::int. py_round v 2 = of_int k / 100 \<and> \<bar>of_int k / 100 - v\<bar> \<le> 1 / 200 \<and>
     (\<bar>of_int k / 100 - v\<bar> = 1 / 200 \<longrightarrow> \<bar>v\<bar> < \<bar>of_int k / 100\<bar>)"
proof (cases "0 \<le> v * 100")
  case True
  define k where "k = \<lfloor>v * 100 + 1 / 2\<rfloor>"
  define r :: rat where "r = of_int k"
  have lo: "r \<le> v * 100 + 1 / 2" and hi: "v * 100 + 1 / 2 < r + 1"
    unfolding r_def k_def by linarith+
  have "py_round v 2 = r / 100"
    using True by (simp add: py_round_def r_def k_def)
  moreover have "\<bar>r / 100 - v\<bar> \<le> 1 / 200"
    using lo hi by linarith
  moreover have "\<bar>r / 100 - v\<bar> = 1 / 200 \<longrightarrow> \<bar>v\<bar> < \<bar>r / 100\<bar>"
  proof
    assume "\<bar>r / 100 - v\<bar> = 1 / 200"
    then show "\<bar>v\<bar> < \<bar>r / 100\<bar>"
      using lo hi True by linarith
  qed
  ultimately show ?thesis
    unfolding r_def by blast
next
  case False
  define k where "k = \<lceil>v * 100 - 1 / 2\<rceil>"
  define r :: rat where "r = of_int k"
  have lo: "v * 100 - 1 / 2 \<le> r" and hi: "r < v * 100 - 1 / 2 + 1"
    unfolding r_def k_def by linarith+
  have "py_round v 2 = r / 100"
    using False by (simp add: py_round_def r_def k_def)
  moreover have "\<bar>r / 100 - v\<bar> \<le> 1 / 200"
    using lo hi by linarith
  moreover have "\<bar>r / 100 - v\<bar> = 1 / 200 \<longrightarrow> \<bar>v\<bar> < \<bar>r / 100\<bar>"
  proof
    assume "\<bar>r / 100 - v\<bar> = 1 / 200"
    then show "\<bar>v\<bar> < \<bar>r / 100\<bar>"
      using lo hi False by linarith
  qed
  ultimately show ?thesis
    unfolding r_def by blast
qed

lemma onUserTrade_cash:
  "activeOrders b (tradeOrderId t) = Some ord \<Longrightarrow>
   cash (snd (onUserTrade t b)) = dround (dsub (dadd (cash b) (tradeUSD t)) (tradeFee t)) 2"
  by (simp add: onUserTrade_def Let_def)

text \<open>
  C6. A trade applied to a tracked order (its order id is a key of the active orders) sets
  the cash to \<open>round(cash + usd - fee, 2)\<close>, computed on floats: the sum and the
  difference are rounded to doubles, and so is the result of \<open>round\<close>. This holds for
  every cash, amount and fee. The cash is held rounded to two decimals in the sense
  floats allow: when the difference is finite, the new cash is the double nearest to a
  number of whole hundredths \<open>k / 100\<close> that is within half a hundredth of the
  difference, a tie going away from zero; an infinite or NaN difference is what \<open>round\<close>
  returns and the cash becomes.
\<close>

theorem trade_updates_cash_rounded:
  assumes "activeOrders b (tradeOrderId t) = Some ord"
  shows "cash (snd (onUserTrade t b)) =
           dround (dsub (dadd (cash b) (tradeUSD t)) (tradeFee t)) 2 \<and>
         (\<forall>v. dsub (dadd (cash b) (tradeUSD t)) (tradeFee t) = Finite v \<longrightarrow>
            (\<exists>k::int. cash (snd (onUserTrade t b)) = fl (of_int k / 100) \<and>
               \<bar>of_int k / 100 - v\<bar> \<le> 1 / 200 \<and>
               (\<bar>of_int k / 100 - v\<bar> = 1 / 200 \<longrightarrow> \<bar>v\<bar> < \<bar>of_int k / 100\<bar>))) \<and>
         ((\<forall>v. dsub (dadd (cash b) (tradeUSD t)) (tradeFee t) \<noteq> Finite v) \<longrightarrow>
            cash (snd (onUserTrade t b)) = dsub (dadd (cash b) (tradeUSD t)) (tradeFee t))"
proof -
  have c: "cash (snd (onUserTrade t b)) =
           dround (dsub (dadd (cash b) (tradeUSD t)) (tradeFee t)) 2"
    using assms by (rule onUserTrade_cash)
  have fin: "\<exists>k::int. cash (snd (onUserTrade t b)) = fl (of_int k / 100) \<and>
               \<bar>of_int k / 100 - v\<bar> \<le> 1 / 200 \<and>
               (\<bar>of_int k / 100 - v\<bar> = 1 / 200 \<longrightarrow> \<bar>v\<bar> < \<bar>of_int k / 100\<bar>)"
    if v: "dsub (dadd (cash b) (tradeUSD t)) (tradeFee t) = Finite v" for v
  proof -
    obtain k :: int where k: "py_round v 2 = of_int k / 100"
      "\<bar>of_int k / 100 - v\<bar> \<le> 1 / 200"
      "\<bar>of_int k / 100 - v\<bar> = 1 / 200 \<longrightarrow> \<bar>v\<bar> < \<bar>of_int k / 100\<bar>"
      using py_round_2_nearest [of v] by blast
    have "cash (snd (onUserTrade t b)) = fl (of_int k / 100)"
      using c v k(1) by simp
    with k(2,3) show ?thesis by blast
  qed
  have inf: "cash (snd (onUserTrade t b)) = dsub (dadd (cash b) (tradeUSD t)) (tradeFee t)"
    if "\<forall>v. dsub (dadd (cash b) (tradeUSD t)) (tradeFee t) \<noteq> Finite v"
    using that c by (cases "dsub (dadd (cash b) (tradeUSD t)) (tradeFee t)") simp_all
  from c fin inf show ?thesis by blast
qed

text \<open>Three instances: 0.005 onto a cash of 1.00 gives 1.00 (the double sum is just
  under 1.005), 1000.00 less 40.004 less 0.10 gives 959.90, and an amount that is NaN
  makes the cash NaN.\<close>

lemma cash_half_cent:
  "dround (dsub (dadd (cash (sampleBroker\<lparr>cash := Finite 1\<rparr>)) (tradeUSD sampleHalfCent))
                 (tradeFee sampleHalfCent)) 2 = Finite 1"
  by code_simp

lemma cash_odd_cents:
  "dround (dsub (dadd (cash sampleBroker) (tradeUSD sampleOddCents))
                 (tradeFee sampleOddCents)) 2 = fl (9599 / 10)"
  by code_simp

lemma cash_nan:
  "dround (dsub (dadd (cash sampleBroker) (tradeUSD (sampleFill1\<lparr>tradeUSD := NaN\<rparr>)))
                 (tradeFee (sampleFill1\<lparr>tradeUSD := NaN\<rparr>))) 2 = NaN"
  by code_simp

theorem trade_updates_cash_rounded_witness:
  "activeOrders (sampleBroker\<lparr>cash := Finite 1\<rparr>) (tradeOrderId sampleHalfCent) =
     Some sampleOrder \<and>
   cash (snd (onUserTrade sampleHalfCent (sampleBroker\<lparr>cash := Finite 1\<rparr>))) = Finite 1 \<and>
   activeOrders sampleBroker (tradeOrderId sampleOddCents) = Some sampleOrder \<and>
   cash (snd (onUserTrade sampleOddCents sampleBroker)) = fl (9599 / 10) \<and>
   activeOrders sampleBroker (tradeOrderId (sampleFill1\<lparr>tradeUSD := NaN\<rparr>)) =
     Some sampleOrder \<and>
   cash (snd (onUserTrade (sampleFill1\<lparr>tradeUSD := NaN\<rparr>) sampleBroker)) = NaN"
proof -
  have h1: "activeOrders (sampleBroker\<lparr>cash := Finite 1\<rparr>) (tradeOrderId sampleHalfCent) =
     Some sampleOrder"
    by (simp add: sampleBroker_orders sample_trade_ids)
  have h2: "activeOrders sampleBroker (tradeOrderId sampleOddCents) = Some sampleOrder"
    by (simp add: sampleBroker_orders sample_trade_ids)
  have h3: "activeOrders sampleBroker (tradeOrderId (sampleFill1\<lparr>tradeUSD := NaN\<rparr>)) =
     Some sampleOrder"
    by (simp add: sampleBroker_orders sample_trade_ids)
  from trade_updates_cash_rounded [OF h1] trade_updates_cash_rounded [OF h2]
    trade_updates_cash_rounded [OF h3] h1 h2 h3
  show ?thesis
    unfolding cash_half_cent cash_odd_cents cash_nan by blast
qed

subsection \<open>Trades of unknown orders\<close>

text \<open>
  C8. A trade whose order id is not a key of the active orders changes neither cash nor
  holdings nor active orders, notifies no event and writes one informational log record:
  the broker after it is the broker before it with that one record appended to its
  effects, and the loop goes on with the next trade.
\<close>

theorem unknown_order_trade_only_logs:
  assumes "activeOrders b (tradeOrderId t) = None"
  shows "onUserTrade t b =
           (Return (),
            b\<lparr>effects := effects b @
                 [Logger INFO ''Trade %d refered to order %d that is not active''
                    [I (tradeId t), I (tradeOrderId t)]]\<rparr>) \<and>
         cash (snd (onUserTrade t b)) = cash b \<and>
         shares (snd (onUserTrade t b)) = shares b \<and>
         activeOrders (snd (onUserTrade t b)) = activeOrders b \<and>
         onUserTrades (t # ts) b = onUserTrades ts (snd (onUserTrade t b))"
  using assms by (simp add: onUserTrade_def)
theorem unknown_order_trade_only_logs_witness:
  "activeOrders sampleBroker (tradeOrderId (sampleTrade 3 77 1 (- 100) 0)) = None \<and>
   onUserTrade (sampleTrade 3 77 1 (- 100) 0) sampleBroker =
     (Return (),
      sampleBroker\<lparr>effects := effects sampleBroker @
        [Logger INFO ''Trade %d refered to order %d that is not active'' [I 3, I 77]]\<rparr>)"
proof -
  have h: "activeOrders sampleBroker (tradeOrderId (sampleTrade 3 77 1 (- 100) 0)) = None"
    by (simp add: sampleBroker_orders sampleTrade_def)
  have i: "tradeId (sampleTrade 3 77 1 (- 100) 0) = 3"
    "tradeOrderId (sampleTrade 3 77 1 (- 100) 0) = 77"
    by (simp_all add: sampleTrade_def)
  from unknown_order_trade_only_logs [OF h] h show ?thesis
    unfolding i by simp
qed

subsection \<open>cancelOrder\<close>

text \<open>
  C2. When the exchange's cancel call raises \<open>e\<close>, \<open>cancelOrder\<close> raises \<open>e\<close> and leaves
  the order and the broker as they were: the only effect is the call itself, so the order
  stays in the active orders, its state is not changed and no Canceled event is notified.
\<close>

theorem cancelOrder_exchange_failure_changes_nothing:
  "cancelOrder (Raise e) ord b =
     (Raise e, ord, b\<lparr>effects := effects b @ [Http (CancelOrder (orderId ord))]\<rparr>) \<and>
   activeOrders (snd (snd (cancelOrder (Raise e) ord b))) = activeOrders b \<and>
   orderState (fst (snd (cancelOrder (Raise e) ord b))) = orderState ord \<and>
   effects (snd (snd (cancelOrder (Raise e) ord b))) =
     effects b @ [Http (CancelOrder (orderId ord))]"
  by (simp add: cancelOrder_def)

text \<open>
  C10. For an order whose id is not a key of the active orders, \<open>cancelOrder\<close> asks the
  exchange to cancel first and, when that call returns, raises KeyError on the deletion
  of the local entry. Whatever the exchange answers, the call ends in an exception with
  the order unchanged (never Canceled) and the cancel request as the broker's only
  effect (no event).
\<close>

theorem cancelOrder_unknown_order_raises_KeyError:
  assumes "activeOrders b (orderId ord) = None"
  shows "cancelOrder (Return ()) ord b =
           (Raise (KeyError (orderId ord)), ord,
            b\<lparr>effects := effects b @ [Http (CancelOrder (orderId ord))]\<rparr>) \<and>
         (\<forall>resp. \<exists>e. cancelOrder resp ord b =
            (Raise e, ord, b\<lparr>effects := effects b @ [Http (CancelOrder (orderId ord))]\<rparr>))"
proof -
  have 1: "cancelOrder (Return ()) ord b =
           (Raise (KeyError (orderId ord)), ord,
            b\<lparr>effects := effects b @ [Http (CancelOrder (orderId ord))]\<rparr>)"
    using assms by (simp add: cancelOrder_def)
  have 2: "\<exists>e. cancelOrder resp ord b =
            (Raise e, ord, b\<lparr>effects := effects b @ [Http (CancelOrder (orderId ord))]\<rparr>)" for resp
    using assms by (cases resp) (simp_all add: cancelOrder_def)
  from 1 2 show ?thesis by blast
qed

theorem cancelOrder_unknown_order_raises_KeyError_witness:
  "activeOrders sampleBroker (orderId (sampleOrder\<lparr>orderId := 77\<rparr>)) = None \<and>
   cancelOrder (Return ()) (sampleOrder\<lparr>orderId := 77\<rparr>) sampleBroker =
     (Raise (KeyError 77), sampleOrder\<lparr>orderId := 77\<rparr>,
      sampleBroker\<lparr>effects := effects sampleBroker @ [Http (CancelOrder 77)]\<rparr>)"
proof -
  have h: "activeOrders sampleBroker (orderId (sampleOrder\<lparr>orderId := 77\<rparr>)) = None"
    by (simp add: sampleBroker_orders)
  from cancelOrder_unknown_order_raises_KeyError [OF h] h show ?thesis
    by simp
qed

subsection \<open>Unsupported operations\<close>

text \<open>
  C9. \<open>submitOrder\<close>, \<open>createMarketOrder\<close>, \<open>createStopOrder\<close>, \<open>createStopLimitOrder\<close>
  and \<open>createLimitOrder\<close> raise on every input (NotImplementedError, or an Exception
  saying that the kind of order is not supported) and leave the broker as it was.
\<close>

theorem unsupported_operations_raise:
  "submitOrder ord b = (Raise NotImplementedError, b) \<and>
   createMarketOrder act instrument quantity onClose b =
     (Raise (Exception ''Market orders are not supported''), b) \<and>
   createStopOrder act instrument stopPrice quantity b =
     (Raise (Exception ''Stop orders are not supported''), b) \<and>
   createStopLimitOrder act instrument stopPrice limitPrice quantity b =
     (Raise (Exception ''Stop limit orders are not supported''), b) \<and>
   createLimitOrder act instrument limitPrice quantity b = (Raise NotImplementedError, b)"
  by (simp add: submitOrder_def createMarketOrder_def createStopOrder_def
      createStopLimitOrder_def createLimitOrder_def)

subsection \<open>Startup\<close>







subsection \<open>Fills and the active orders\<close>

text \<open>
  In \<open>_onUserTrades\<close> the test \<open>if not order.isActive()\<close> stands before
  \<open>order.addExecutionInfo\<close>, so it sees the order as it was before this trade: an order
  that was active stays in the active orders whatever the trade fills, with the new
  execution recorded in it.
\<close>

lemma active_order_is_kept_by_its_trade:
  assumes "activeOrders b (tradeOrderId t) = Some ord" and "isActive ord"
  shows "activeOrders (snd (onUserTrade t b)) (tradeOrderId t) =
           Some (addExecutionInfo
                   \<lparr>execPrice = tradeBTCUSD t, execQuantity = dabs (tradeBTC t),
                    execCommission = tradeFee t, execDateTime = tradeDateTime t\<rparr> ord)"
  using assms by (simp add: onUserTrade_def Let_def)

lemma full_fill_is_notified_but_order_is_kept:
  assumes "activeOrders b (tradeOrderId t) = Some ord" and "isActive ord"
    and "dle (orderQuantity ord) (dadd (orderFilled ord) (dabs (tradeBTC t)))"
  shows "\<exists>ord' info.
           activeOrders (snd (onUserTrade t b)) (tradeOrderId t) = Some ord' \<and>
           orderState ord' = FILLED \<and>
           last (effects (snd (onUserTrade t b))) = Notify (OrderEvent ord' EV_FILLED info)"
  using assms by (simp add: onUserTrade_def Let_def addExecutionInfo_def isFilled_def)

lemma partial_fill_stays_active:
  assumes "activeOrders b (tradeOrderId t) = Some ord" and "isActive ord"
    and "\<not> dle (orderQuantity ord) (dadd (orderFilled ord) (dabs (tradeBTC t)))"
  shows "\<exists>ord' info.
           activeOrders (snd (onUserTrade t b)) (tradeOrderId t) = Some ord' \<and>
           orderState ord' = PARTIALLY_FILLED \<and>
           last (effects (snd (onUserTrade t b))) =
             Notify (OrderEvent ord' EV_PARTIALLY_FILLED info)"
  using assms by (simp add: onUserTrade_def Let_def addExecutionInfo_def isFilled_def)

lemma scenario_state:
  "fst (onUserTrades [sampleFill1, sampleFill2] sampleBroker) = Return () \<and>
   cash (snd (onUserTrades [sampleFill1, sampleFill2] sampleBroker)) = Finite (89975 / 100) \<and>
   shares (snd (onUserTrades [sampleFill1, sampleFill2] sampleBroker)) btc_symbol =
     Some (Finite 1)"
  by code_simp

lemma scenario_order:
  "map_option orderFilled
     (activeOrders (snd (onUserTrades [sampleFill1, sampleFill2] sampleBroker)) 1) =
     Some (Finite 1) \<and>
   map_option orderState
     (activeOrders (snd (onUserTrades [sampleFill1, sampleFill2] sampleBroker)) 1) = Some FILLED"
  by code_simp

lemma scenario_event:
  "(case last (effects (snd (onUserTrades [sampleFill1, sampleFill2] sampleBroker))) of
      Notify (OrderEvent ord ty info) \<Rightarrow> ty = EV_FILLED
    | _ \<Rightarrow> False)"
  by code_simp

text \<open>
  C1, at the specification's scenario (balance 1000.00 and 0 BTC, O1 buys 1.0 BTC, two
  trades of 0.4 and 0.6 BTC). After the second trade the cash is 899.75, the holding is
  1 BTC, the order has 1.0 filled and is Filled, and the event notified is a Filled one;
  yet the order is still an entry of the active orders, where the claim has it removed
  during that trade.
\<close>

theorem filled_order_stays_in_active_orders:
  "fst (onUserTrades [sampleFill1, sampleFill2] sampleBroker) = Return () \<and>
   cash (snd (onUserTrades [sampleFill1, sampleFill2] sampleBroker)) = Finite (89975 / 100) \<and>
   shares (snd (onUserTrades [sampleFill1, sampleFill2] sampleBroker)) btc_symbol =
     Some (Finite 1) \<and>
   map_option orderFilled
     (activeOrders (snd (onUserTrades [sampleFill1, sampleFill2] sampleBroker)) 1) =
     Some (Finite 1) \<and>
   map_option orderState
     (activeOrders (snd (onUserTrades [sampleFill1, sampleFill2] sampleBroker)) 1) = Some FILLED \<and>
   (\<exists>ord info. last (effects (snd (onUserTrades [sampleFill1, sampleFill2] sampleBroker))) =
      Notify (OrderEvent ord EV_FILLED info))"
proof -
  have "\<exists>ord info. last (effects (snd (onUserTrades [sampleFill1, sampleFill2] sampleBroker))) =
      Notify (OrderEvent ord EV_FILLED info)"
    using scenario_event by (auto split: effect.splits OrderEvent.splits)
  with scenario_state scenario_order show ?thesis by blast
qed

subsection \<open>Holdings of zero\<close>

lemma trade_leaves_no_zero_holding:
  "activeOrders b (tradeOrderId t) = Some ord \<Longrightarrow>
   shares (snd (onUserTrade t b)) btc_symbol \<noteq> Some (Finite 0)"
  by (simp add: onUserTrade_def Let_def)

lemma trade_keeps_other_holdings:
  "instrument \<noteq> btc_symbol \<Longrightarrow>
   shares (snd (onUserTrade t b)) instrument = shares b instrument"
  by (cases "activeOrders b (tradeOrderId t)") (simp_all add: onUserTrade_def Let_def)

lemma getShares_absent: "shares b instrument = None \<Longrightarrow> getShares instrument b = Finite 0"
  by (simp add: getShares_def)

text \<open>
  C5, at a balance of 0 BTC. \<open>refreshAccountBalance\<close> stores the instrument with the
  quantity 0, and so does \<open>start\<close> in the specification's scenario: the holdings have an
  entry whose quantity is exactly zero, which the trade path (above) never leaves.
\<close>

theorem balance_refresh_stores_zero_holding:
  "fst (refreshAccountBalance (Return sampleBalance) LiveBroker_init) = Return () \<and>
   shares (snd (refreshAccountBalance (Return sampleBalance) LiveBroker_init)) btc_symbol =
     Some (Finite 0) \<and>
   shares sampleBroker btc_symbol = Some (Finite 0)"
  by (simp add: refreshAccountBalance_def Let_def sampleBalance_def sampleBroker_balance)

end
